theory Spec2Isabelle
  imports Complex_Main
begin

section \<open>Go values: nil pointers, panics, errors\<close>

text \<open>
  A Go pointer \<open>*T\<close> is a \<open>T option\<close>, \<open>None\<close> for nil. A function that dereferences a
  nil pointer panics; a function that returns does so with a value.
\<close>

datatype 'a outcome = Panic | Return 'a

text \<open>
  Modelled from the spec: \<open>fi.RequiredField\<close> and \<open>fi.CannotChangeField\<close> belong to package
  \<open>fi\<close>, which is not among the sources; the error taxonomy of the spec names them
  \<open>RequiredField(name)\<close> and \<open>CannotChangeField(name)\<close>, each carrying the field name, and
  they are kept as constructors of Go's \<open>error\<close> values. Of the other constructors,
  \<open>ErrWaitTimeout\<close> is the sentinel \<open>wait.ErrWaitTimeout\<close> of the apimachinery library,
  \<open>ProviderError\<close> is an error that comes back from the OpenStack client library, and
  \<open>Errorf\<close> is \<open>fmt.Errorf\<close> with its format string and arguments. Go compares errors
  by identity; every error made by \<open>fmt.Errorf\<close> is a fresh value, never the sentinel.
\<close>

datatype error =
    RequiredField string
  | CannotChangeField string
  | ErrWaitTimeout
  | ProviderError string
  | Errorf string "fmtarg list"
and fmtarg =
    Str string
  | Num int
  | Err error

text \<open>
  Modelled from the spec: \<open>fi.String\<close> and \<open>fi.StringValue\<close> (package \<open>fi\<close>, not among the
  sources) are the helpers of the nullable-pointer pattern for optional fields: the first
  returns a pointer to its argument, the second reads a pointer and gives the empty string
  for nil.
\<close>

definition fi_String :: "string \<Rightarrow> string option" where
  "fi_String s = Some s"

fun fi_StringValue :: "string option \<Rightarrow> string" where
  "fi_StringValue None = []"
| "fi_StringValue (Some s) = s"

section \<open>The load balancer task and the provider\<close>

text \<open>
  \<open>listeners.Listener\<close> is a struct of the client library of which no field is read here;
  \<open>fi.Lifecycle\<close> is a string type.
\<close>

datatype listeners_Listener = Listener_of string

type_synonym fi_Lifecycle = string

record LB =
  ID :: "string option"
  Name :: "string option"
  Listener :: "listeners_Listener option"
  Subnet :: "string option"
  VipSubnet :: "string option"
  Lifecycle :: "fi_Lifecycle option"
  PortID :: "string option"

text \<open>The fields of the client library's structs that the code reads or writes.\<close>

record loadbalancers_LoadBalancer =
  lb_ID :: string
  lb_Name :: string
  lb_VipSubnetID :: string
  lb_VipPortID :: string

record subnets_Subnet =
  subnet_ID :: string
  subnet_Name :: string

record servergroups_ServerGroup =
  sg_ID :: string
  sg_Name :: string

record loadbalancers_CreateOpts =
  opts_Name :: string
  opts_VipSubnetID :: string

record volumeattach_CreateOpts =
  VolumeID :: string

text \<open>
  Every request that reaches the provider is recorded, in order, in a trace. The options
  of the volume requests are opaque to this code and kept as a string; the pages of a
  listing likewise. A map of tags is the list of its entries, one for each key, so that
  \<open>len(tags)\<close> is the length of the list.
\<close>

datatype call =
    Call_loadbalancers_Get string
  | Call_subnets_Get string
  | Call_ListSubnets string
  | Call_CreateLB loadbalancers_CreateOpts
  | Call_ListServerGroups
  | Call_cinder_List string
  | Call_cinder_Create string
  | Call_volumeattach_Create string volumeattach_CreateOpts
  | Call_cinder_Update string "(string \<times> string) list"

type_synonym trace = "call list"

text \<open>
  The provider is a parameter: what it answers to a request may depend on everything it
  was asked before. A call of the client library followed by \<open>Extract\<close> gives a value
  or an error; the methods of the cloud interface that list give Go's pair of a slice and
  an error.
\<close>

record provider =
  loadbalancers_Get :: "trace \<Rightarrow> string \<Rightarrow> error + loadbalancers_LoadBalancer"
  subnets_Get :: "trace \<Rightarrow> string \<Rightarrow> error + subnets_Subnet"
  Cloud_ListSubnets :: "trace \<Rightarrow> string \<Rightarrow> subnets_Subnet list \<times> error option"
  Cloud_CreateLB :: "trace \<Rightarrow> loadbalancers_CreateOpts \<Rightarrow> error + loadbalancers_LoadBalancer"
  Cloud_ListServerGroups :: "trace \<Rightarrow> servergroups_ServerGroup list \<times> error option"
  cinder_List_AllPages :: "trace \<Rightarrow> string \<Rightarrow> error + string"
  cinder_ExtractVolumes :: "string \<Rightarrow> error + string list"
  cinder_Create :: "trace \<Rightarrow> string \<Rightarrow> error + string"
  volumeattach_Create :: "trace \<Rightarrow> string \<Rightarrow> volumeattach_CreateOpts \<Rightarrow> error + string"
  cinder_Update :: "trace \<Rightarrow> string \<Rightarrow> (string \<times> string) list \<Rightarrow> error + string"

section \<open>LB.CheckChanges\<close>

text \<open>
  \<open>CheckChanges(a, e, changes)\<close> takes three pointers and neither a context nor a target:
  it has no provider to call. \<open>e\<close> is read only when \<open>a\<close> is nil and \<open>changes\<close> only when
  it is not.
\<close>

definition CheckChanges :: "LB option \<Rightarrow> LB option \<Rightarrow> LB option \<Rightarrow> error option outcome" where
  "CheckChanges a e changes =
     (case a of
        None \<Rightarrow>
          (case e of
             None \<Rightarrow> Panic
           | Some e' \<Rightarrow>
               if Name e' = None then Return (Some (RequiredField ''Name''))
               else Return None)
      | Some a' \<Rightarrow>
          (case changes of
             None \<Rightarrow> Panic
           | Some c \<Rightarrow>
               if ID c \<noteq> None then Return (Some (CannotChangeField ''ID''))
               else if Name c \<noteq> None then Return (Some (CannotChangeField ''Name''))
               else Return None))"

section \<open>LB.Find\<close>

text \<open>
  \<open>NewLBTaskFromCloud\<close> reads the subnet of the load balancer and builds the task of it:
  identifier, name, lifecycle and subnet name are set, every other field is left nil.
\<close>

definition NewLBTaskFromCloud ::
  "provider \<Rightarrow> fi_Lifecycle option \<Rightarrow> loadbalancers_LoadBalancer \<Rightarrow> trace
     \<Rightarrow> (LB option \<times> error option) \<times> trace" where
  "NewLBTaskFromCloud cloud lifecycle lb tr =
     (let tr' = tr @ [Call_subnets_Get (lb_VipSubnetID lb)] in
      case subnets_Get cloud tr (lb_VipSubnetID lb) of
        Inl err \<Rightarrow> ((None, Some err), tr')
      | Inr sub \<Rightarrow>
          ((Some \<lparr> ID = fi_String (lb_ID lb), Name = fi_String (lb_Name lb),
                   Listener = None, Subnet = fi_String (subnet_Name sub),
                   VipSubnet = None, Lifecycle = lifecycle, PortID = None \<rparr>,
            None), tr'))"

definition Find :: "provider \<Rightarrow> LB \<Rightarrow> trace \<Rightarrow> (LB option \<times> error option) \<times> trace" where
  "Find cloud s tr =
     (if ID s = None then ((None, None), tr)
      else
        let tr' = tr @ [Call_loadbalancers_Get (fi_StringValue (ID s))] in
        case loadbalancers_Get cloud tr (fi_StringValue (ID s)) of
          Inl err \<Rightarrow> ((None, Some err), tr')
        | Inr lb \<Rightarrow> NewLBTaskFromCloud cloud (Lifecycle s) lb tr')"

section \<open>LB.RenderOpenstack\<close>

text \<open>
  \<open>RenderOpenstack\<close> writes into \<open>e\<close>; the model returns the error together with \<open>e\<close> as
  it is afterwards, and the trace. With \<open>a\<close> nil, \<open>e\<close> is dereferenced before any request.
\<close>

definition RenderOpenstack ::
  "provider \<Rightarrow> LB option \<Rightarrow> LB option \<Rightarrow> LB option \<Rightarrow> trace
     \<Rightarrow> (error option \<times> LB option) outcome \<times> trace" where
  "RenderOpenstack cloud a e changes tr =
     (case a of
        None \<Rightarrow>
          (case e of
             None \<Rightarrow> (Panic, tr)
           | Some e' \<Rightarrow>
               (let (subnets, err) = Cloud_ListSubnets cloud tr (fi_StringValue (Subnet e'));
                    tr1 = tr @ [Call_ListSubnets (fi_StringValue (Subnet e'))]
                in
                (case err of
                   Some err' \<Rightarrow>
                     (Return (Some (Errorf ''Failed to retrieve subnet `%s` in loadbalancer creation: %v''
                                      [Str (fi_StringValue (Subnet e')), Err err']), e), tr1)
                 | None \<Rightarrow>
                     if length subnets \<noteq> 1 then
                       (Return (Some (Errorf ''Unexpected desired subnets for `%s`.  Expected 1, got %d''
                                        [Str (fi_StringValue (Subnet e')), Num (int (length subnets))]), e),
                        tr1)
                     else
                       (let lbopts = \<lparr> opts_Name = fi_StringValue (Name e'),
                                        opts_VipSubnetID = subnet_ID (subnets ! 0) \<rparr>;
                            tr2 = tr1 @ [Call_CreateLB lbopts]
                        in
                        (case Cloud_CreateLB cloud tr1 lbopts of
                           Inl err' \<Rightarrow>
                             (Return (Some (Errorf ''error creating LB: %v'' [Err err']), e), tr2)
                         | Inr lb \<Rightarrow>
                             (Return (None,
                                Some (e'\<lparr> ID := fi_String (lb_ID lb),
                                           PortID := fi_String (lb_VipPortID lb),
                                           VipSubnet := fi_String (lb_VipSubnetID lb) \<rparr>)), tr2))))))
      | Some a' \<Rightarrow> (Return (None, e), tr))"

section \<open>LB.GetDependencies\<close>

text \<open>
  The tasks of the package. Of \<open>Subnet\<close>, \<open>ServerGroup\<close> and \<open>Instance\<close> only the type is
  looked at, so their content is kept as the task's name; any other kind of task is
  \<open>OtherTask\<close>.
\<close>

datatype task =
    SubnetTask string
  | ServerGroupTask string
  | InstanceTask string
  | LBTask LB
  | OtherTask string

fun is_Subnet :: "task \<Rightarrow> bool" where
  "is_Subnet (SubnetTask _) = True"
| "is_Subnet _ = False"

fun is_ServerGroup :: "task \<Rightarrow> bool" where
  "is_ServerGroup (ServerGroupTask _) = True"
| "is_ServerGroup _ = False"

fun is_Instance :: "task \<Rightarrow> bool" where
  "is_Instance (InstanceTask _) = True"
| "is_Instance _ = False"

text \<open>
  The body of the loop, with its three type assertions in sequence, and the loop over the
  entries of the map. Go ranges over a map in an unspecified order: the map is given as the
  list of its entries in the order of the iteration.
\<close>

definition GetDependencies_step :: "task list \<Rightarrow> task \<Rightarrow> task list" where
  "GetDependencies_step deps t =
     (let deps1 = (if is_Subnet t then deps @ [t] else deps);
          deps2 = (if is_ServerGroup t then deps1 @ [t] else deps1);
          deps3 = (if is_Instance t then deps2 @ [t] else deps2)
      in deps3)"

definition GetDependencies :: "LB \<Rightarrow> (string \<times> task) list \<Rightarrow> task list" where
  "GetDependencies e tasks = foldl GetDependencies_step [] (map snd tasks)"

text \<open>
  The tasks an \<open>LB\<close> refers to through its fields. No field of the struct holds a task:
  \<open>ID\<close>, \<open>Name\<close>, \<open>Subnet\<close>, \<open>VipSubnet\<close> and \<open>PortID\<close> are strings, \<open>Listener\<close> is a
  struct of the client library and \<open>Lifecycle\<close> a string type. The one field that names
  another task is \<open>Subnet\<close>, by the subnet's name; counting that as a reference, an \<open>LB\<close>
  refers to the subnet tasks of that name and to nothing else.
\<close>

definition LB_field_references :: "LB \<Rightarrow> (string \<times> task) list \<Rightarrow> task list" where
  "LB_field_references e tasks =
     filter (\<lambda>t. case t of SubnetTask n \<Rightarrow> Subnet e = Some n | _ \<Rightarrow> False) (map snd tasks)"

section \<open>Backoff policies and the retried volume operations\<close>

text \<open>
  \<open>wait.Backoff\<close>: \<open>Duration\<close> is a \<open>time.Duration\<close>, a count of nanoseconds; \<open>Factor\<close>
  and \<open>Jitter\<close> hold the decimal literals of the source (the rounding of the literal to a
  float is not modelled); \<open>Steps\<close> is an int.
\<close>

record Backoff =
  Duration :: int
  Factor :: real
  Jitter :: real
  Steps :: int

definition time_Second :: int where
  "time_Second = 1000000000"

text \<open>
  \<open>readBackoff\<close> and \<open>writeBackoff\<close> are declared with \<open>var\<close>: they are variables of the
  package, which Go lets any code of the package assign to, and an operation reads its
  variable when it is called. The variables are the fields of a record, the state of the
  package, and \<open>package_init\<close> is that state as the two declarations initialise it.
\<close>

record package_vars =
  readBackoff :: Backoff
  writeBackoff :: Backoff

definition package_init :: package_vars where
  "package_init =
     \<lparr> readBackoff = \<lparr> Duration = time_Second, Factor = 1.5, Jitter = 0.1, Steps = 4 \<rparr>,
       writeBackoff = \<lparr> Duration = time_Second, Factor = 1.5, Jitter = 0.1, Steps = 5 \<rparr> \<rparr>"

text \<open>
  \<open>vfs.RetryWithBackoff(backoff, condition)\<close> is not among the sources and is a parameter
  of each operation that calls it. The condition is a closure: it reads and writes the
  variables it captures and talks to the provider, so it is a function on a state, giving
  Go's pair \<open>(done, err)\<close>; the executor runs it as it sees fit and gives such a pair too.
  The policy is handed to the executor by value, as the variable holds it at the call.
\<close>

type_synonym 's condition = "'s \<Rightarrow> (bool \<times> error option) \<times> 's"

type_synonym 's retry = "Backoff \<Rightarrow> 's condition \<Rightarrow> 's \<Rightarrow> (bool \<times> error option) \<times> 's"

text \<open>The closures, on the captured variable (where one is assigned) and the trace.\<close>

definition ListVolumes_condition :: "provider \<Rightarrow> string \<Rightarrow> (string list \<times> trace) condition" where
  "ListVolumes_condition c opt = (\<lambda>(volumes, tr).
     let tr' = tr @ [Call_cinder_List opt] in
     case cinder_List_AllPages c tr opt of
       Inl err \<Rightarrow> ((False, Some (Errorf ''error listing volumes %v: %v'' [Str opt, Err err])),
                    (volumes, tr'))
     | Inr allPages \<Rightarrow>
         (case cinder_ExtractVolumes c allPages of
            Inl err \<Rightarrow> ((False, Some (Errorf ''error extracting volumes from pages: %v'' [Err err])),
                         (volumes, tr'))
          | Inr vs \<Rightarrow> ((True, None), (vs, tr'))))"

definition ListVolumes ::
  "(string list \<times> trace) retry \<Rightarrow> package_vars \<Rightarrow> provider \<Rightarrow> string \<Rightarrow> trace
     \<Rightarrow> (string list \<times> error option) \<times> trace" where
  "ListVolumes RetryWithBackoff vars c opt tr =
     (case RetryWithBackoff (readBackoff vars) (ListVolumes_condition c opt) ([], tr) of
        ((done, err), (volumes, tr')) \<Rightarrow>
          if err \<noteq> None then ((volumes, err), tr')
          else if done then ((volumes, None), tr')
          else ((volumes, Some ErrWaitTimeout), tr'))"

definition CreateVolume_condition :: "provider \<Rightarrow> string \<Rightarrow> (string option \<times> trace) condition" where
  "CreateVolume_condition c opt = (\<lambda>(volume, tr).
     let tr' = tr @ [Call_cinder_Create opt] in
     case cinder_Create c tr opt of
       Inl err \<Rightarrow> ((False, Some (Errorf ''error creating volume %v: %v'' [Str opt, Err err])),
                    (volume, tr'))
     | Inr v \<Rightarrow> ((True, None), (Some v, tr')))"

definition CreateVolume ::
  "(string option \<times> trace) retry \<Rightarrow> package_vars \<Rightarrow> provider \<Rightarrow> string \<Rightarrow> trace
     \<Rightarrow> (string option \<times> error option) \<times> trace" where
  "CreateVolume RetryWithBackoff vars c opt tr =
     (case RetryWithBackoff (writeBackoff vars) (CreateVolume_condition c opt) (None, tr) of
        ((done, err), (volume, tr')) \<Rightarrow>
          if err \<noteq> None then ((volume, err), tr')
          else if done then ((volume, None), tr')
          else ((volume, Some ErrWaitTimeout), tr'))"

definition AttachVolume_condition ::
  "provider \<Rightarrow> string \<Rightarrow> volumeattach_CreateOpts \<Rightarrow> (string option \<times> trace) condition" where
  "AttachVolume_condition c serverID opts = (\<lambda>(attachment, tr).
     let tr' = tr @ [Call_volumeattach_Create serverID opts] in
     case volumeattach_Create c tr serverID opts of
       Inl err \<Rightarrow> ((False, Some (Errorf ''error attaching volume %s to server %s: %v''
                                     [Str (VolumeID opts), Str serverID, Err err])),
                    (attachment, tr'))
     | Inr volumeAttachment \<Rightarrow> ((True, None), (Some volumeAttachment, tr')))"

definition AttachVolume ::
  "(string option \<times> trace) retry \<Rightarrow> package_vars \<Rightarrow> provider \<Rightarrow> string
     \<Rightarrow> volumeattach_CreateOpts \<Rightarrow> trace
     \<Rightarrow> (string option \<times> error option) \<times> trace" where
  "AttachVolume RetryWithBackoff vars c serverID opts tr =
     (case RetryWithBackoff (writeBackoff vars) (AttachVolume_condition c serverID opts)
             (None, tr) of
        ((done, err), (attachment, tr')) \<Rightarrow>
          if \<not> done then
            (if err = None then ((attachment, Some ErrWaitTimeout), tr')
             else ((attachment, err), tr'))
          else ((attachment, err), tr'))"

definition SetVolumeTags_condition ::
  "provider \<Rightarrow> string \<Rightarrow> (string \<times> string) list \<Rightarrow> trace condition" where
  "SetVolumeTags_condition c id' tags = (\<lambda>tr.
     let tr' = tr @ [Call_cinder_Update id' tags] in
     case cinder_Update c tr id' tags of
       Inl err \<Rightarrow> ((False, Some (Errorf ''error setting tags to cinder volume %q: %v''
                                     [Str id', Err err])), tr')
     | Inr _ \<Rightarrow> ((True, None), tr'))"

definition SetVolumeTags ::
  "trace retry \<Rightarrow> package_vars \<Rightarrow> provider \<Rightarrow> string \<Rightarrow> (string \<times> string) list \<Rightarrow> trace
     \<Rightarrow> error option \<times> trace" where
  "SetVolumeTags RetryWithBackoff vars c id' tags tr =
     (if length tags = 0 then (None, tr)
      else if id' = [] then (Some (Errorf ''error setting tags to unknown volume'' []), tr)
      else
        case RetryWithBackoff (writeBackoff vars) (SetVolumeTags_condition c id' tags) tr of
          ((done, err), tr') \<Rightarrow>
            if err \<noteq> None then (err, tr')
            else if done then (None, tr')
            else (Some ErrWaitTimeout, tr'))"

section \<open>OpenstackAPITarget.GetIDForServerGroupName\<close>

text \<open>
  The loop over the listed server groups. \<open>*sgName\<close> is read at the first comparison and,
  when the loop ends without a match, for the message of the error.
\<close>

fun GetIDForServerGroupName_loop ::
  "string option \<Rightarrow> servergroups_ServerGroup list \<Rightarrow> (string option \<times> error option) outcome" where
  "GetIDForServerGroupName_loop sgName [] =
     (case sgName of
        None \<Rightarrow> Panic
      | Some n \<Rightarrow> Return (None, Some (Errorf ''ID not found for Server Group Name %s.'' [Str n])))"
| "GetIDForServerGroupName_loop sgName (serverGroup # rest) =
     (case sgName of
        None \<Rightarrow> Panic
      | Some n \<Rightarrow>
          if sg_Name serverGroup = n then Return (fi_String (sg_ID serverGroup), None)
          else GetIDForServerGroupName_loop sgName rest)"

definition GetIDForServerGroupName ::
  "provider \<Rightarrow> string option \<Rightarrow> trace \<Rightarrow> (string option \<times> error option) outcome \<times> trace" where
  "GetIDForServerGroupName cloud sgName tr =
     (case Cloud_ListServerGroups cloud tr of
        (serverGroups, _) \<Rightarrow>
          (GetIDForServerGroupName_loop sgName serverGroups, tr @ [Call_ListServerGroups]))"

section \<open>Example inputs\<close>

text \<open>The zero value of the struct: every field nil.\<close>

definition LB_zero :: LB where
  "LB_zero = \<lparr> ID = None, Name = None, Listener = None, Subnet = None,
               VipSubnet = None, Lifecycle = None, PortID = None \<rparr>"

text \<open>
  A provider that has every resource asked for: a load balancer \<open>api-lb\<close> on the subnet
  \<open>subnet-1\<close>, named \<open>private\<close>, and two server groups.
\<close>

definition cloud_up :: provider where
  "cloud_up = \<lparr>
     loadbalancers_Get = (\<lambda>tr i. Inr \<lparr> lb_ID = i, lb_Name = ''api-lb'',
                                         lb_VipSubnetID = ''subnet-1'', lb_VipPortID = ''port-1'' \<rparr>),
     subnets_Get = (\<lambda>tr i. Inr \<lparr> subnet_ID = i, subnet_Name = ''private'' \<rparr>),
     Cloud_ListSubnets = (\<lambda>tr n. ([\<lparr> subnet_ID = ''subnet-1'', subnet_Name = n \<rparr>], None)),
     Cloud_CreateLB = (\<lambda>tr opts. Inr \<lparr> lb_ID = ''lb-1'', lb_Name = opts_Name opts,
                                         lb_VipSubnetID = opts_VipSubnetID opts,
                                         lb_VipPortID = ''port-1'' \<rparr>),
     Cloud_ListServerGroups = (\<lambda>tr. ([\<lparr> sg_ID = ''sg-1'', sg_Name = ''masters'' \<rparr>,
                                        \<lparr> sg_ID = ''sg-2'', sg_Name = ''nodes'' \<rparr>], None)),
     cinder_List_AllPages = (\<lambda>tr opt. Inr ''pages''),
     cinder_ExtractVolumes = (\<lambda>pages. Inr [''vol-1'']),
     cinder_Create = (\<lambda>tr opt. Inr ''vol-2''),
     volumeattach_Create = (\<lambda>tr serverID opts. Inr ''attachment-1''),
     cinder_Update = (\<lambda>tr i tags. Inr i) \<rparr>"

text \<open>
  A provider that has no resource at all: every lookup by identifier, and every request
  on a volume, fails with the provider's "not found"; every listing is empty.
\<close>

definition cloud_empty :: provider where
  "cloud_empty = \<lparr>
     loadbalancers_Get = (\<lambda>tr i. Inl (ProviderError ''Resource not found'')),
     subnets_Get = (\<lambda>tr i. Inl (ProviderError ''Resource not found'')),
     Cloud_ListSubnets = (\<lambda>tr n. ([], None)),
     Cloud_CreateLB = (\<lambda>tr opts. Inl (ProviderError ''Resource not found'')),
     Cloud_ListServerGroups = (\<lambda>tr. ([], None)),
     cinder_List_AllPages = (\<lambda>tr opt. Inl (ProviderError ''Resource not found'')),
     cinder_ExtractVolumes = (\<lambda>pages. Inr []),
     cinder_Create = (\<lambda>tr opt. Inl (ProviderError ''Resource not found'')),
     volumeattach_Create = (\<lambda>tr serverID opts. Inl (ProviderError ''Resource not found'')),
     cinder_Update = (\<lambda>tr i tags. Inl (ProviderError ''Resource not found'')) \<rparr>"

text \<open>
  Two executors to run the operations with. The first makes a single attempt and gives its
  result. The second makes an attempt after another until one is done or as many are made
  as the policy has steps, and keeps no error of an attempt: with its budget spent it
  gives neither "done" nor an error.
\<close>

definition retry_single_attempt :: "'s retry" where
  "retry_single_attempt backoff condition s = condition s"

fun attempts_dropping_errors :: "nat \<Rightarrow> 's condition \<Rightarrow> 's \<Rightarrow> (bool \<times> error option) \<times> 's" where
  "attempts_dropping_errors 0 condition s = ((False, None), s)"
| "attempts_dropping_errors (Suc n) condition s =
     (case condition s of
        ((done, err), s') \<Rightarrow>
          if done then ((True, None), s') else attempts_dropping_errors n condition s')"

definition retry_dropping_errors :: "'s retry" where
  "retry_dropping_errors backoff condition s =
     attempts_dropping_errors (nat (Steps backoff)) condition s"

text \<open>
  The state of the package after the assignment \<open>writeBackoff.Steps = 1\<close>.
\<close>

definition package_reassigned :: package_vars where
  "package_reassigned =
     package_init\<lparr> writeBackoff := (writeBackoff package_init)\<lparr> Steps := 1 \<rparr> \<rparr>"

section \<open>Checking the changes of a load balancer\<close>

text \<open>
  C1, as amended. When the actual state is present and the change set proposes a new
  identifier, \<open>CheckChanges\<close> returns \<open>CannotChangeField("ID")\<close>; when the change set
  proposes a new name and no new identifier, it returns \<open>CannotChangeField("Name")\<close>.
  \<open>CheckChanges\<close> is a function of its three arguments alone: it is given no provider and
  issues no request.
\<close>

theorem CheckChanges_immutable_fields:
  "(ID c \<noteq> None \<longrightarrow>
      CheckChanges (Some a') e (Some c) = Return (Some (CannotChangeField ''ID''))) \<and>
   (ID c = None \<and> Name c \<noteq> None \<longrightarrow>
      CheckChanges (Some a') e (Some c) = Return (Some (CannotChangeField ''Name'')))"
  by (simp add: CheckChanges_def)

text \<open>
  The theorem at a change of identifier from \<open>id-1\<close> to \<open>id-2\<close>, and at a change of name
  alone.
\<close>

theorem CheckChanges_immutable_fields_witness:
  "CheckChanges (Some (LB_zero\<lparr>ID := Some ''id-1''\<rparr>)) (Some (LB_zero\<lparr>ID := Some ''id-2''\<rparr>))
                (Some (LB_zero\<lparr>ID := Some ''id-2''\<rparr>)) = Return (Some (CannotChangeField ''ID'')) \<and>
   CheckChanges (Some (LB_zero\<lparr>ID := Some ''id-1'', Name := Some ''lb-a''\<rparr>))
                (Some (LB_zero\<lparr>ID := Some ''id-1'', Name := Some ''lb-b''\<rparr>))
                (Some (LB_zero\<lparr>Name := Some ''lb-b''\<rparr>)) = Return (Some (CannotChangeField ''Name''))"
  using CheckChanges_immutable_fields [of "LB_zero\<lparr>ID := Some ''id-2''\<rparr>"
          "LB_zero\<lparr>ID := Some ''id-1''\<rparr>" "Some (LB_zero\<lparr>ID := Some ''id-2''\<rparr>)"]
        CheckChanges_immutable_fields [of "LB_zero\<lparr>Name := Some ''lb-b''\<rparr>"
          "LB_zero\<lparr>ID := Some ''id-1'', Name := Some ''lb-a''\<rparr>"
          "Some (LB_zero\<lparr>ID := Some ''id-1'', Name := Some ''lb-b''\<rparr>)"]
  by (simp add: LB_zero_def)

text \<open>
  C1 as it is written fails where the change set proposes both a new identifier and a new
  name: the identifier is checked first, and the error names \<open>ID\<close>, not \<open>Name\<close>.
\<close>

theorem CheckChanges_name_counterexample:
  "CheckChanges (Some (LB_zero\<lparr>ID := Some ''id-1'', Name := Some ''lb-a''\<rparr>))
                (Some (LB_zero\<lparr>ID := Some ''id-2'', Name := Some ''lb-b''\<rparr>))
                (Some (LB_zero\<lparr>ID := Some ''id-2'', Name := Some ''lb-b''\<rparr>))
     = Return (Some (CannotChangeField ''ID'')) \<and>
   CheckChanges (Some (LB_zero\<lparr>ID := Some ''id-1'', Name := Some ''lb-a''\<rparr>))
                (Some (LB_zero\<lparr>ID := Some ''id-2'', Name := Some ''lb-b''\<rparr>))
                (Some (LB_zero\<lparr>ID := Some ''id-2'', Name := Some ''lb-b''\<rparr>))
     \<noteq> Return (Some (CannotChangeField ''Name''))"
  by (simp add: CheckChanges_def LB_zero_def)

text \<open>
  C2. When the actual state is absent and the name of the expected state is unset,
  \<open>CheckChanges\<close> returns \<open>RequiredField("Name")\<close>, whatever the change set. It is a
  function of its three arguments alone, given no provider: no create call is made by it.
\<close>

theorem CheckChanges_required_name:
  "Name e' = None \<Longrightarrow>
     CheckChanges None (Some e') changes = Return (Some (RequiredField ''Name''))"
  by (simp add: CheckChanges_def)

text \<open>The theorem at a task of which only the subnet is set.\<close>

theorem CheckChanges_required_name_witness:
  "Name (LB_zero\<lparr>Subnet := Some ''private''\<rparr>) = None \<and>
   CheckChanges None (Some (LB_zero\<lparr>Subnet := Some ''private''\<rparr>)) None
     = Return (Some (RequiredField ''Name''))"
  using CheckChanges_required_name [of "LB_zero\<lparr>Subnet := Some ''private''\<rparr>" None]
  by (simp add: LB_zero_def)

section \<open>Finding a load balancer\<close>

text \<open>
  The four ways through \<open>Find\<close>, one lemma each.
\<close>

lemma Find_without_ID: "ID s = None \<Longrightarrow> Find cloud s tr = ((None, None), tr)"
  by (simp add: Find_def)

lemma Find_Get_fails:
  "ID s = Some i \<Longrightarrow> loadbalancers_Get cloud tr i = Inl err \<Longrightarrow>
     Find cloud s tr = ((None, Some err), tr @ [Call_loadbalancers_Get i])"
  by (simp add: Find_def)

lemma Find_subnet_fails:
  "ID s = Some i \<Longrightarrow> loadbalancers_Get cloud tr i = Inr lb \<Longrightarrow>
   subnets_Get cloud (tr @ [Call_loadbalancers_Get i]) (lb_VipSubnetID lb) = Inl err \<Longrightarrow>
     Find cloud s tr =
       ((None, Some err), tr @ [Call_loadbalancers_Get i, Call_subnets_Get (lb_VipSubnetID lb)])"
  by (simp add: Find_def NewLBTaskFromCloud_def)

lemma Find_found:
  "ID s = Some i \<Longrightarrow> loadbalancers_Get cloud tr i = Inr lb \<Longrightarrow>
   subnets_Get cloud (tr @ [Call_loadbalancers_Get i]) (lb_VipSubnetID lb) = Inr sub \<Longrightarrow>
     Find cloud s tr =
       ((Some \<lparr> ID = Some (lb_ID lb), Name = Some (lb_Name lb), Listener = None,
                Subnet = Some (subnet_Name sub), VipSubnet = None, Lifecycle = Lifecycle s,
                PortID = None \<rparr>, None),
        tr @ [Call_loadbalancers_Get i, Call_subnets_Get (lb_VipSubnetID lb)])"
  by (simp add: Find_def NewLBTaskFromCloud_def fi_String_def)

lemma Find_not_found_iff: "fst (Find cloud s tr) = (None, None) \<longleftrightarrow> ID s = None"
  by (auto simp: Find_def NewLBTaskFromCloud_def Let_def split: sum.splits)

text \<open>
  C3, as amended. \<open>Find\<close> queries the provider by the task's identifier, and only when the
  identifier is known. With no identifier it issues no request at all and returns the
  distinguished "not found" result, no task and no error. With an identifier it asks for
  the load balancer of that identifier and then for its subnet; an error of either request,
  whatever it reports, is returned as the error of \<open>Find\<close>, and otherwise the task built
  from the two answers is returned. "Not found" is the result exactly when the identifier
  is unknown.
\<close>

theorem Find_by_identifier:
  "(ID s = None \<longrightarrow> Find cloud s tr = ((None, None), tr)) \<and>
   (ID s = Some i \<longrightarrow>
      (\<forall>err. loadbalancers_Get cloud tr i = Inl err \<longrightarrow>
         Find cloud s tr = ((None, Some err), tr @ [Call_loadbalancers_Get i])) \<and>
      (\<forall>lb. loadbalancers_Get cloud tr i = Inr lb \<longrightarrow>
         (\<forall>err. subnets_Get cloud (tr @ [Call_loadbalancers_Get i]) (lb_VipSubnetID lb) = Inl err \<longrightarrow>
            Find cloud s tr =
              ((None, Some err),
               tr @ [Call_loadbalancers_Get i, Call_subnets_Get (lb_VipSubnetID lb)])) \<and>
         (\<forall>sub. subnets_Get cloud (tr @ [Call_loadbalancers_Get i]) (lb_VipSubnetID lb) = Inr sub \<longrightarrow>
            Find cloud s tr =
              ((Some \<lparr> ID = Some (lb_ID lb), Name = Some (lb_Name lb), Listener = None,
                       Subnet = Some (subnet_Name sub), VipSubnet = None,
                       Lifecycle = Lifecycle s, PortID = None \<rparr>, None),
               tr @ [Call_loadbalancers_Get i, Call_subnets_Get (lb_VipSubnetID lb)])))) \<and>
   (fst (Find cloud s tr) = (None, None) \<longleftrightarrow> ID s = None)"
proof (intro conjI impI allI)
  show "fst (Find cloud s tr) = (None, None) \<longleftrightarrow> ID s = None"
    by (rule Find_not_found_iff)
qed (simp_all add: Find_without_ID Find_Get_fails Find_subnet_fails Find_found)

text \<open>
  The theorem at a task with a name and no identifier, at a task the provider does not
  have, and at a task the provider has.
\<close>

theorem Find_by_identifier_witness:
  "Find cloud_up (LB_zero\<lparr>Name := Some ''api-lb''\<rparr>) [] = ((None, None), []) \<and>
   Find cloud_empty (LB_zero\<lparr>ID := Some ''id-1''\<rparr>) []
     = ((None, Some (ProviderError ''Resource not found'')), [Call_loadbalancers_Get ''id-1'']) \<and>
   Find cloud_up (LB_zero\<lparr>ID := Some ''id-1'', Lifecycle := Some ''Sync''\<rparr>) []
     = ((Some \<lparr> ID = Some ''id-1'', Name = Some ''api-lb'', Listener = None,
                Subnet = Some ''private'', VipSubnet = None, Lifecycle = Some ''Sync'',
                PortID = None \<rparr>, None),
        [Call_loadbalancers_Get ''id-1'', Call_subnets_Get ''subnet-1''])"
proof -
  have a: "Find cloud_up (LB_zero\<lparr>Name := Some ''api-lb''\<rparr>) [] = ((None, None), [])"
    using Find_by_identifier [of "LB_zero\<lparr>Name := Some ''api-lb''\<rparr>" cloud_up "[]" "''x''"]
    by (simp add: LB_zero_def)
  have b: "Find cloud_empty (LB_zero\<lparr>ID := Some ''id-1''\<rparr>) []
     = ((None, Some (ProviderError ''Resource not found'')), [Call_loadbalancers_Get ''id-1''])"
    using Find_by_identifier [of "LB_zero\<lparr>ID := Some ''id-1''\<rparr>" cloud_empty "[]" "''id-1''"]
    by (simp add: LB_zero_def cloud_empty_def)
  have c: "Find cloud_up (LB_zero\<lparr>ID := Some ''id-1'', Lifecycle := Some ''Sync''\<rparr>) []
     = ((Some \<lparr> ID = Some ''id-1'', Name = Some ''api-lb'', Listener = None,
                Subnet = Some ''private'', VipSubnet = None, Lifecycle = Some ''Sync'',
                PortID = None \<rparr>, None),
        [Call_loadbalancers_Get ''id-1'', Call_subnets_Get ''subnet-1''])"
    using Find_by_identifier [of "LB_zero\<lparr>ID := Some ''id-1'', Lifecycle := Some ''Sync''\<rparr>"
            cloud_up "[]" "''id-1''"]
    by (simp add: LB_zero_def cloud_up_def)
  from a b c show ?thesis by blast
qed

text \<open>
  C3 as it is written fails twice. A task with a name and no identifier is not looked up
  by its name, although the provider has a load balancer of that name: no request is
  issued. And for a task with an identifier, the provider's "not found" comes back as the
  error of \<open>Find\<close>.
\<close>

theorem Find_counterexample:
  "Find cloud_up (LB_zero\<lparr>Name := Some ''api-lb''\<rparr>) [] = ((None, None), []) \<and>
   Find cloud_empty (LB_zero\<lparr>ID := Some ''id-1''\<rparr>) []
     = ((None, Some (ProviderError ''Resource not found'')), [Call_loadbalancers_Get ''id-1''])"
  by (simp add: Find_def LB_zero_def cloud_empty_def)

section \<open>Applying the changes of a load balancer\<close>

text \<open>
  C4, as amended. When the actual state is present, \<open>RenderOpenstack\<close> does nothing,
  whether the change set is empty or not: it issues no request, leaves the expected state
  as it is and returns no error. There is no update call.
\<close>

theorem RenderOpenstack_actual_present:
  "a \<noteq> None \<Longrightarrow> RenderOpenstack cloud a e changes tr = (Return (None, e), tr)"
  by (auto simp: RenderOpenstack_def)

text \<open>
  The theorem at an existing load balancer and an empty change set.
\<close>

theorem RenderOpenstack_actual_present_witness:
  "Some (LB_zero\<lparr>ID := Some ''id-1'', Name := Some ''api-lb'', Subnet := Some ''private''\<rparr>) \<noteq> None \<and>
   RenderOpenstack cloud_up
     (Some (LB_zero\<lparr>ID := Some ''id-1'', Name := Some ''api-lb'', Subnet := Some ''private''\<rparr>))
     (Some (LB_zero\<lparr>ID := Some ''id-1'', Name := Some ''api-lb'', Subnet := Some ''private''\<rparr>))
     (Some LB_zero) []
   = (Return (None,
        Some (LB_zero\<lparr>ID := Some ''id-1'', Name := Some ''api-lb'', Subnet := Some ''private''\<rparr>)), [])"
  using RenderOpenstack_actual_present
    [of "Some (LB_zero\<lparr>ID := Some ''id-1'', Name := Some ''api-lb'', Subnet := Some ''private''\<rparr>)"
        cloud_up
        "Some (LB_zero\<lparr>ID := Some ''id-1'', Name := Some ''api-lb'', Subnet := Some ''private''\<rparr>)"
        "Some LB_zero" "[]"]
  by simp

text \<open>
  C4 as it is written fails at a change set that is not empty, here a change of subnet,
  which \<open>CheckChanges\<close> lets through: no request is issued for it.
\<close>

theorem RenderOpenstack_update_counterexample:
  "RenderOpenstack cloud_up
     (Some (LB_zero\<lparr>ID := Some ''id-1'', Name := Some ''api-lb'', Subnet := Some ''private''\<rparr>))
     (Some (LB_zero\<lparr>ID := Some ''id-1'', Name := Some ''api-lb'', Subnet := Some ''public''\<rparr>))
     (Some (LB_zero\<lparr>Subnet := Some ''public''\<rparr>)) []
   = (Return (None,
        Some (LB_zero\<lparr>ID := Some ''id-1'', Name := Some ''api-lb'', Subnet := Some ''public''\<rparr>)), []) \<and>
   LB_zero\<lparr>Subnet := Some ''public''\<rparr> \<noteq> LB_zero"
  by (simp add: RenderOpenstack_def LB_zero_def)

text \<open>
  The four ways through the creation of a load balancer, one lemma each.
\<close>

lemma RenderOpenstack_list_fails:
  "Cloud_ListSubnets cloud tr (fi_StringValue (Subnet e')) = (subnets, Some err) \<Longrightarrow>
     RenderOpenstack cloud None (Some e') changes tr =
       (Return (Some (Errorf ''Failed to retrieve subnet `%s` in loadbalancer creation: %v''
                        [Str (fi_StringValue (Subnet e')), Err err]), Some e'),
        tr @ [Call_ListSubnets (fi_StringValue (Subnet e'))])"
  by (simp add: RenderOpenstack_def)

lemma RenderOpenstack_not_one_subnet:
  "Cloud_ListSubnets cloud tr (fi_StringValue (Subnet e')) = (subnets, None) \<Longrightarrow>
   length subnets \<noteq> 1 \<Longrightarrow>
     RenderOpenstack cloud None (Some e') changes tr =
       (Return (Some (Errorf ''Unexpected desired subnets for `%s`.  Expected 1, got %d''
                        [Str (fi_StringValue (Subnet e')), Num (int (length subnets))]), Some e'),
        tr @ [Call_ListSubnets (fi_StringValue (Subnet e'))])"
  by (simp add: RenderOpenstack_def)

lemma RenderOpenstack_create_fails:
  "Cloud_ListSubnets cloud tr (fi_StringValue (Subnet e')) = ([sn], None) \<Longrightarrow>
   Cloud_CreateLB cloud (tr @ [Call_ListSubnets (fi_StringValue (Subnet e'))])
     \<lparr> opts_Name = fi_StringValue (Name e'), opts_VipSubnetID = subnet_ID sn \<rparr> = Inl err \<Longrightarrow>
     RenderOpenstack cloud None (Some e') changes tr =
       (Return (Some (Errorf ''error creating LB: %v'' [Err err]), Some e'),
        tr @ [Call_ListSubnets (fi_StringValue (Subnet e')),
              Call_CreateLB \<lparr> opts_Name = fi_StringValue (Name e'),
                               opts_VipSubnetID = subnet_ID sn \<rparr>])"
  by (simp add: RenderOpenstack_def Let_def)

lemma RenderOpenstack_created:
  "Cloud_ListSubnets cloud tr (fi_StringValue (Subnet e')) = ([sn], None) \<Longrightarrow>
   Cloud_CreateLB cloud (tr @ [Call_ListSubnets (fi_StringValue (Subnet e'))])
     \<lparr> opts_Name = fi_StringValue (Name e'), opts_VipSubnetID = subnet_ID sn \<rparr> = Inr lb \<Longrightarrow>
     RenderOpenstack cloud None (Some e') changes tr =
       (Return (None,
          Some \<lparr> ID = Some (lb_ID lb), Name = Name e', Listener = Listener e',
                  Subnet = Subnet e', VipSubnet = Some (lb_VipSubnetID lb),
                  Lifecycle = Lifecycle e', PortID = Some (lb_VipPortID lb) \<rparr>),
        tr @ [Call_ListSubnets (fi_StringValue (Subnet e')),
              Call_CreateLB \<lparr> opts_Name = fi_StringValue (Name e'),
                               opts_VipSubnetID = subnet_ID sn \<rparr>])"
  by (simp add: RenderOpenstack_def Let_def fi_String_def)

text \<open>
  C5, as amended. When the actual state is absent, \<open>RenderOpenstack\<close> first lists the
  subnets of the name in the expected state. If the listing fails or gives any number of
  subnets but one, it returns an error, with no create call and the expected state as it
  was. Otherwise it issues one create call, with the name of the expected state and the
  identifier of the subnet found; if that fails, it returns an error and the expected state
  is as it was; if it succeeds, \<open>ID\<close>, \<open>PortID\<close> and \<open>VipSubnet\<close> of the expected state
  are set from the provider's answer, and \<open>Name\<close>, \<open>Listener\<close>, \<open>Subnet\<close> and
  \<open>Lifecycle\<close> are as they were.
\<close>

theorem RenderOpenstack_actual_absent:
  "(\<forall>subnets err. Cloud_ListSubnets cloud tr (fi_StringValue (Subnet e')) = (subnets, err) \<longrightarrow>
       err \<noteq> None \<or> length subnets \<noteq> 1 \<longrightarrow>
       (\<exists>failure. RenderOpenstack cloud None (Some e') changes tr =
          (Return (Some failure, Some e'), tr @ [Call_ListSubnets (fi_StringValue (Subnet e'))]))) \<and>
   (\<forall>sn. Cloud_ListSubnets cloud tr (fi_StringValue (Subnet e')) = ([sn], None) \<longrightarrow>
       snd (RenderOpenstack cloud None (Some e') changes tr) =
         tr @ [Call_ListSubnets (fi_StringValue (Subnet e')),
               Call_CreateLB \<lparr> opts_Name = fi_StringValue (Name e'),
                                opts_VipSubnetID = subnet_ID sn \<rparr>] \<and>
       (\<forall>err. Cloud_CreateLB cloud (tr @ [Call_ListSubnets (fi_StringValue (Subnet e'))])
                \<lparr> opts_Name = fi_StringValue (Name e'), opts_VipSubnetID = subnet_ID sn \<rparr> = Inl err \<longrightarrow>
          fst (RenderOpenstack cloud None (Some e') changes tr) =
            Return (Some (Errorf ''error creating LB: %v'' [Err err]), Some e')) \<and>
       (\<forall>lb. Cloud_CreateLB cloud (tr @ [Call_ListSubnets (fi_StringValue (Subnet e'))])
                \<lparr> opts_Name = fi_StringValue (Name e'), opts_VipSubnetID = subnet_ID sn \<rparr> = Inr lb \<longrightarrow>
          fst (RenderOpenstack cloud None (Some e') changes tr) =
            Return (None,
              Some \<lparr> ID = Some (lb_ID lb), Name = Name e', Listener = Listener e',
                      Subnet = Subnet e', VipSubnet = Some (lb_VipSubnetID lb),
                      Lifecycle = Lifecycle e', PortID = Some (lb_VipPortID lb) \<rparr>)))"
proof (intro conjI allI impI)
  fix subnets err
  assume l: "Cloud_ListSubnets cloud tr (fi_StringValue (Subnet e')) = (subnets, err)"
    and f: "err \<noteq> None \<or> length subnets \<noteq> 1"
  show "\<exists>failure. RenderOpenstack cloud None (Some e') changes tr =
          (Return (Some failure, Some e'), tr @ [Call_ListSubnets (fi_StringValue (Subnet e'))])"
  proof (cases err)
    case None
    with l f show ?thesis by (simp add: RenderOpenstack_not_one_subnet)
  next
    case (Some x)
    with l show ?thesis by (simp add: RenderOpenstack_list_fails)
  qed
next
  fix sn
  assume l: "Cloud_ListSubnets cloud tr (fi_StringValue (Subnet e')) = ([sn], None)"
  show "snd (RenderOpenstack cloud None (Some e') changes tr) =
         tr @ [Call_ListSubnets (fi_StringValue (Subnet e')),
               Call_CreateLB \<lparr> opts_Name = fi_StringValue (Name e'),
                                opts_VipSubnetID = subnet_ID sn \<rparr>]"
    using l by (simp add: RenderOpenstack_def Let_def split: sum.splits)
next
  fix sn err
  assume "Cloud_ListSubnets cloud tr (fi_StringValue (Subnet e')) = ([sn], None)"
    and "Cloud_CreateLB cloud (tr @ [Call_ListSubnets (fi_StringValue (Subnet e'))])
                \<lparr> opts_Name = fi_StringValue (Name e'), opts_VipSubnetID = subnet_ID sn \<rparr> = Inl err"
  then show "fst (RenderOpenstack cloud None (Some e') changes tr) =
            Return (Some (Errorf ''error creating LB: %v'' [Err err]), Some e')"
    by (simp add: RenderOpenstack_create_fails)
next
  fix sn lb
  assume "Cloud_ListSubnets cloud tr (fi_StringValue (Subnet e')) = ([sn], None)"
    and "Cloud_CreateLB cloud (tr @ [Call_ListSubnets (fi_StringValue (Subnet e'))])
                \<lparr> opts_Name = fi_StringValue (Name e'), opts_VipSubnetID = subnet_ID sn \<rparr> = Inr lb"
  then show "fst (RenderOpenstack cloud None (Some e') changes tr) =
            Return (None,
              Some \<lparr> ID = Some (lb_ID lb), Name = Name e', Listener = Listener e',
                      Subnet = Subnet e', VipSubnet = Some (lb_VipSubnetID lb),
                      Lifecycle = Lifecycle e', PortID = Some (lb_VipPortID lb) \<rparr>)"
    by (simp add: RenderOpenstack_created)
qed

text \<open>
  The theorem at a provider that has the subnet, and at one that has no subnet.
\<close>

theorem RenderOpenstack_actual_absent_witness:
  "RenderOpenstack cloud_up None
     (Some (LB_zero\<lparr>Name := Some ''api-lb'', Subnet := Some ''private'', Lifecycle := Some ''Sync''\<rparr>))
     (Some (LB_zero\<lparr>Name := Some ''api-lb'', Subnet := Some ''private'', Lifecycle := Some ''Sync''\<rparr>)) []
   = (Return (None,
        Some \<lparr> ID = Some ''lb-1'', Name = Some ''api-lb'', Listener = None,
                Subnet = Some ''private'', VipSubnet = Some ''subnet-1'',
                Lifecycle = Some ''Sync'', PortID = Some ''port-1'' \<rparr>),
      [Call_ListSubnets ''private'',
       Call_CreateLB \<lparr> opts_Name = ''api-lb'', opts_VipSubnetID = ''subnet-1'' \<rparr>]) \<and>
   (\<exists>failure. RenderOpenstack cloud_empty None
     (Some (LB_zero\<lparr>Name := Some ''api-lb'', Subnet := Some ''private''\<rparr>))
     (Some (LB_zero\<lparr>Name := Some ''api-lb'', Subnet := Some ''private''\<rparr>)) []
   = (Return (Some failure, Some (LB_zero\<lparr>Name := Some ''api-lb'', Subnet := Some ''private''\<rparr>)),
      [Call_ListSubnets ''private'']))"
proof -
  let ?e = "LB_zero\<lparr>Name := Some ''api-lb'', Subnet := Some ''private'', Lifecycle := Some ''Sync''\<rparr>"
  let ?e2 = "LB_zero\<lparr>Name := Some ''api-lb'', Subnet := Some ''private''\<rparr>"
  have a: "Cloud_ListSubnets cloud_up [] (fi_StringValue (Subnet ?e))
             = ([\<lparr> subnet_ID = ''subnet-1'', subnet_Name = ''private'' \<rparr>], None)"
    by (simp add: cloud_up_def LB_zero_def)
  have b: "Cloud_CreateLB cloud_up ([] @ [Call_ListSubnets (fi_StringValue (Subnet ?e))])
             \<lparr> opts_Name = fi_StringValue (Name ?e),
                opts_VipSubnetID = subnet_ID \<lparr> subnet_ID = ''subnet-1'', subnet_Name = ''private'' \<rparr> \<rparr>
           = Inr \<lparr> lb_ID = ''lb-1'', lb_Name = ''api-lb'', lb_VipSubnetID = ''subnet-1'',
                   lb_VipPortID = ''port-1'' \<rparr>"
    by (simp add: cloud_up_def LB_zero_def)
  have c: "Cloud_ListSubnets cloud_empty [] (fi_StringValue (Subnet ?e2)) = ([], None)"
    by (simp add: cloud_empty_def)
  have 1: "RenderOpenstack cloud_up None (Some ?e) (Some ?e) []
   = (Return (None,
        Some \<lparr> ID = Some ''lb-1'', Name = Some ''api-lb'', Listener = None,
                Subnet = Some ''private'', VipSubnet = Some ''subnet-1'',
                Lifecycle = Some ''Sync'', PortID = Some ''port-1'' \<rparr>),
      [Call_ListSubnets ''private'',
       Call_CreateLB \<lparr> opts_Name = ''api-lb'', opts_VipSubnetID = ''subnet-1'' \<rparr>])"
    using RenderOpenstack_actual_absent [of cloud_up "[]" ?e "Some ?e"] a b
    by (simp add: prod_eq_iff LB_zero_def)
  have 2: "\<exists>failure. RenderOpenstack cloud_empty None (Some ?e2) (Some ?e2) []
   = (Return (Some failure, Some ?e2), [Call_ListSubnets ''private''])"
    using RenderOpenstack_actual_absent [of cloud_empty "[]" ?e2 "Some ?e2"] c
    by (simp add: LB_zero_def)
  from 1 2 show ?thesis by blast
qed

text \<open>
  C5 as it is written fails where the provider has no subnet of the name: the actual state
  is absent and no create call is issued.
\<close>

theorem RenderOpenstack_create_counterexample:
  "RenderOpenstack cloud_empty None
     (Some (LB_zero\<lparr>Name := Some ''api-lb'', Subnet := Some ''private''\<rparr>))
     (Some (LB_zero\<lparr>Name := Some ''api-lb'', Subnet := Some ''private''\<rparr>)) []
   = (Return (Some (Errorf ''Unexpected desired subnets for `%s`.  Expected 1, got %d''
                      [Str ''private'', Num 0]),
              Some (LB_zero\<lparr>Name := Some ''api-lb'', Subnet := Some ''private''\<rparr>)),
      [Call_ListSubnets ''private''])"
  by (simp add: RenderOpenstack_def LB_zero_def cloud_empty_def)

section \<open>The dependencies of a load balancer\<close>

text \<open>
  The three type assertions of the loop's body exclude one another, so a task is appended
  at most once; the loop is a filter.
\<close>

lemma GetDependencies_step_eq:
  "GetDependencies_step deps t =
     (if is_Subnet t \<or> is_ServerGroup t \<or> is_Instance t then deps @ [t] else deps)"
  by (cases t) (simp_all add: GetDependencies_step_def)

lemma foldl_GetDependencies_step:
  "foldl GetDependencies_step deps ts =
     deps @ filter (\<lambda>t. is_Subnet t \<or> is_ServerGroup t \<or> is_Instance t) ts"
  by (induction ts arbitrary: deps) (simp_all add: GetDependencies_step_eq)

text \<open>
  C8, as amended. For every mapping from task name to task, the dependencies of an \<open>LB\<close>
  are exactly the tasks of the mapping that are a \<open>Subnet\<close>, a \<open>ServerGroup\<close> or an
  \<open>Instance\<close>, in the order of the iteration: they are derived by the type of the tasks
  alone. They depend neither on the fields of the \<open>LB\<close> nor on the names the tasks are
  mapped from.
\<close>

theorem GetDependencies_by_type:
  "GetDependencies e tasks =
     filter (\<lambda>t. is_Subnet t \<or> is_ServerGroup t \<or> is_Instance t) (map snd tasks) \<and>
   GetDependencies e tasks = GetDependencies e' (map (\<lambda>(name, t). (rename name, t)) tasks)"
proof -
  have "snd \<circ> (\<lambda>(name, t). (rename name, t)) = (snd :: string \<times> task \<Rightarrow> task)"
    by (auto simp: fun_eq_iff)
  then show ?thesis
    by (simp add: GetDependencies_def foldl_GetDependencies_step)
qed

text \<open>
  The theorem at a mapping of six tasks.
\<close>

theorem GetDependencies_by_type_witness:
  "GetDependencies (LB_zero\<lparr>Name := Some ''api-lb'', Subnet := Some ''private''\<rparr>)
     [(''private'', SubnetTask ''private''), (''utility'', SubnetTask ''utility''),
      (''api-lb'', LBTask (LB_zero\<lparr>Name := Some ''api-lb'', Subnet := Some ''private''\<rparr>)),
      (''masters'', ServerGroupTask ''masters''), (''master-1'', InstanceTask ''master-1''),
      (''key'', OtherTask ''key'')]
   = [SubnetTask ''private'', SubnetTask ''utility'', ServerGroupTask ''masters'',
      InstanceTask ''master-1'']"
  using GetDependencies_by_type
    [of "LB_zero\<lparr>Name := Some ''api-lb'', Subnet := Some ''private''\<rparr>"
        "[(''private'', SubnetTask ''private''), (''utility'', SubnetTask ''utility''),
      (''api-lb'', LBTask (LB_zero\<lparr>Name := Some ''api-lb'', Subnet := Some ''private''\<rparr>)),
      (''masters'', ServerGroupTask ''masters''), (''master-1'', InstanceTask ''master-1''),
      (''key'', OtherTask ''key'')]"]
  by simp

text \<open>
  C8 as it is written fails: the \<open>LB\<close> on the subnet \<open>private\<close> depends on the subnet
  \<open>utility\<close> and on the server group too, which none of its fields refers to; and an
  \<open>LB\<close> of which no field is set depends on every subnet of the mapping.
\<close>

theorem GetDependencies_counterexample:
  "GetDependencies (LB_zero\<lparr>Name := Some ''api-lb'', Subnet := Some ''private''\<rparr>)
     [(''private'', SubnetTask ''private''), (''utility'', SubnetTask ''utility''),
      (''masters'', ServerGroupTask ''masters'')]
   = [SubnetTask ''private'', SubnetTask ''utility'', ServerGroupTask ''masters''] \<and>
   LB_field_references (LB_zero\<lparr>Name := Some ''api-lb'', Subnet := Some ''private''\<rparr>)
     [(''private'', SubnetTask ''private''), (''utility'', SubnetTask ''utility''),
      (''masters'', ServerGroupTask ''masters'')]
   = [SubnetTask ''private''] \<and>
   GetDependencies LB_zero [(''utility'', SubnetTask ''utility'')] = [SubnetTask ''utility''] \<and>
   LB_field_references LB_zero [(''utility'', SubnetTask ''utility'')] = []"
  by (simp add: GetDependencies_def GetDependencies_step_def LB_field_references_def LB_zero_def)

section \<open>The backoff policies\<close>

text \<open>
  Each operation hands to the executor the value its own variable holds at the call, and
  the value of the other variable is nothing to it.
\<close>

lemma ListVolumes_reads_readBackoff:
  "ListVolumes R vars c opt tr = ListVolumes (\<lambda>b. R (readBackoff vars)) vars c opt tr"
  "ListVolumes R (vars\<lparr>writeBackoff := b\<rparr>) c opt tr = ListVolumes R vars c opt tr"
  by (simp_all add: ListVolumes_def)

lemma CreateVolume_reads_writeBackoff:
  "CreateVolume R vars c opt tr = CreateVolume (\<lambda>b. R (writeBackoff vars)) vars c opt tr"
  "CreateVolume R (vars\<lparr>readBackoff := b\<rparr>) c opt tr = CreateVolume R vars c opt tr"
  by (simp_all add: CreateVolume_def)

lemma AttachVolume_reads_writeBackoff:
  "AttachVolume R vars c serverID opts tr
     = AttachVolume (\<lambda>b. R (writeBackoff vars)) vars c serverID opts tr"
  "AttachVolume R (vars\<lparr>readBackoff := b\<rparr>) c serverID opts tr
     = AttachVolume R vars c serverID opts tr"
  by (simp_all add: AttachVolume_def)

lemma SetVolumeTags_reads_writeBackoff:
  "SetVolumeTags R vars c id' tags tr
     = SetVolumeTags (\<lambda>b. R (writeBackoff vars)) vars c id' tags tr"
  "SetVolumeTags R (vars\<lparr>readBackoff := b\<rparr>) c id' tags tr = SetVolumeTags R vars c id' tags tr"
  by (simp_all add: SetVolumeTags_def)

text \<open>
  C6, as amended. There is one backoff policy for each class of operation, held in a
  variable of the package, which is not immutable. As the declarations initialise them,
  the write policy is an initial delay of one second (in nanoseconds), a factor of 1.5, a
  jitter of 0.1 and 5 steps, and the read policy has fewer steps, 4, with a factor and an
  initial delay that are not larger. Whatever values the variables hold and whatever the
  executor does, the listing of volumes runs under the value of \<open>readBackoff\<close> at the call
  and does not depend on \<open>writeBackoff\<close>; the creation and the attachment of a volume and
  the setting of tags run under the value of \<open>writeBackoff\<close> at the call and do not depend
  on \<open>readBackoff\<close>.
\<close>

theorem backoff_policies:
  "writeBackoff package_init
     = \<lparr> Duration = 1000000000, Factor = 3 / 2, Jitter = 1 / 10, Steps = 5 \<rparr> \<and>
   readBackoff package_init
     = \<lparr> Duration = 1000000000, Factor = 3 / 2, Jitter = 1 / 10, Steps = 4 \<rparr> \<and>
   Steps (readBackoff package_init) < Steps (writeBackoff package_init) \<and>
   Factor (readBackoff package_init) \<le> Factor (writeBackoff package_init) \<and>
   Duration (readBackoff package_init) \<le> Duration (writeBackoff package_init) \<and>
   ListVolumes R1 vars c opt tr = ListVolumes (\<lambda>b. R1 (readBackoff vars)) vars c opt tr \<and>
   ListVolumes R1 (vars\<lparr>writeBackoff := b\<rparr>) c opt tr = ListVolumes R1 vars c opt tr \<and>
   CreateVolume R2 vars c opt tr = CreateVolume (\<lambda>b. R2 (writeBackoff vars)) vars c opt tr \<and>
   CreateVolume R2 (vars\<lparr>readBackoff := b\<rparr>) c opt tr = CreateVolume R2 vars c opt tr \<and>
   AttachVolume R3 vars c serverID opts tr
     = AttachVolume (\<lambda>b. R3 (writeBackoff vars)) vars c serverID opts tr \<and>
   AttachVolume R3 (vars\<lparr>readBackoff := b\<rparr>) c serverID opts tr
     = AttachVolume R3 vars c serverID opts tr \<and>
   SetVolumeTags R4 vars c id' tags tr
     = SetVolumeTags (\<lambda>b. R4 (writeBackoff vars)) vars c id' tags tr \<and>
   SetVolumeTags R4 (vars\<lparr>readBackoff := b\<rparr>) c id' tags tr
     = SetVolumeTags R4 vars c id' tags tr"
proof -
  have init:
    "writeBackoff package_init
       = \<lparr> Duration = 1000000000, Factor = 3 / 2, Jitter = 1 / 10, Steps = 5 \<rparr>"
    "readBackoff package_init
       = \<lparr> Duration = 1000000000, Factor = 3 / 2, Jitter = 1 / 10, Steps = 4 \<rparr>"
    by (simp_all add: package_init_def time_Second_def)
  have order:
    "Steps (readBackoff package_init) < Steps (writeBackoff package_init)"
    "Factor (readBackoff package_init) \<le> Factor (writeBackoff package_init)"
    "Duration (readBackoff package_init) \<le> Duration (writeBackoff package_init)"
    by (simp_all add: init)
  show ?thesis
    by (intro conjI init order ListVolumes_reads_readBackoff CreateVolume_reads_writeBackoff
          AttachVolume_reads_writeBackoff SetVolumeTags_reads_writeBackoff)
qed

text \<open>
  C6 as it is written fails: the policies are not immutable. \<open>writeBackoff\<close> is a
  variable, and after the assignment \<open>writeBackoff.Steps = 1\<close> the write policy is not the
  one of the claim. The operations follow the variable: against a provider that fails, the
  executor that uses up its budget lets \<open>CreateVolume\<close> make five requests before the
  assignment and one after it.
\<close>

theorem backoff_policies_counterexample:
  "writeBackoff package_reassigned
     \<noteq> \<lparr> Duration = 1000000000, Factor = 3 / 2, Jitter = 1 / 10, Steps = 5 \<rparr> \<and>
   CreateVolume retry_dropping_errors package_init cloud_empty ''10GB'' []
     = ((None, Some ErrWaitTimeout),
        [Call_cinder_Create ''10GB'', Call_cinder_Create ''10GB'', Call_cinder_Create ''10GB'',
         Call_cinder_Create ''10GB'', Call_cinder_Create ''10GB'']) \<and>
   CreateVolume retry_dropping_errors package_reassigned cloud_empty ''10GB'' []
     = ((None, Some ErrWaitTimeout), [Call_cinder_Create ''10GB''])"
  by (simp add: package_reassigned_def package_init_def CreateVolume_def
        CreateVolume_condition_def retry_dropping_errors_def cloud_empty_def eval_nat_numeral)

section \<open>The errors of the retried volume operations\<close>

text \<open>
  What each retried operation makes of the pair \<open>(done, err)\<close> the executor gives it.
\<close>

lemma ListVolumes_error:
  "R (readBackoff vars) (ListVolumes_condition c opt) ([], tr)
     = ((done, err), (volumes, tr')) \<Longrightarrow>
     ListVolumes R vars c opt tr =
       ((volumes, case err of Some x \<Rightarrow> Some x
                  | None \<Rightarrow> if done then None else Some ErrWaitTimeout), tr')"
  by (simp add: ListVolumes_def split: option.splits)

lemma CreateVolume_error:
  "R (writeBackoff vars) (CreateVolume_condition c opt) (None, tr)
     = ((done, err), (volume, tr')) \<Longrightarrow>
     CreateVolume R vars c opt tr =
       ((volume, case err of Some x \<Rightarrow> Some x
                 | None \<Rightarrow> if done then None else Some ErrWaitTimeout), tr')"
  by (simp add: CreateVolume_def split: option.splits)

lemma AttachVolume_error:
  "R (writeBackoff vars) (AttachVolume_condition c serverID opts) (None, tr)
     = ((done, err), (attachment, tr')) \<Longrightarrow>
     AttachVolume R vars c serverID opts tr =
       ((attachment, case err of Some x \<Rightarrow> Some x
                     | None \<Rightarrow> if done then None else Some ErrWaitTimeout), tr')"
  by (simp add: AttachVolume_def split: option.splits)

lemma SetVolumeTags_error:
  "tags \<noteq> [] \<Longrightarrow> id' \<noteq> [] \<Longrightarrow>
   R (writeBackoff vars) (SetVolumeTags_condition c id' tags) tr = ((done, err), tr') \<Longrightarrow>
     SetVolumeTags R vars c id' tags tr =
       (case err of Some x \<Rightarrow> Some x
        | None \<Rightarrow> if done then None else Some ErrWaitTimeout, tr')"
  by (simp add: SetVolumeTags_def split: option.splits)

text \<open>
  The closures give errors made by \<open>fmt.Errorf\<close>, never the timeout.
\<close>

lemma conditions_never_time_out:
  "snd (fst (ListVolumes_condition c opt s1)) \<noteq> Some ErrWaitTimeout"
  "snd (fst (CreateVolume_condition c opt s2)) \<noteq> Some ErrWaitTimeout"
  "snd (fst (AttachVolume_condition c serverID opts s3)) \<noteq> Some ErrWaitTimeout"
  "snd (fst (SetVolumeTags_condition c id' tags s4)) \<noteq> Some ErrWaitTimeout"
  by (auto simp: ListVolumes_condition_def CreateVolume_condition_def
        AttachVolume_condition_def SetVolumeTags_condition_def Let_def
      split: sum.splits prod.splits)

text \<open>
  C7. For \<open>ListVolumes\<close>, \<open>CreateVolume\<close>, \<open>AttachVolume\<close> and \<open>SetVolumeTags\<close> (once
  past its guards), for every executor and whatever policy the variables hold: if the
  executor comes back with neither "done" nor an error, the operation returns
  \<open>wait.ErrWaitTimeout\<close>; if it comes back with an error, the operation returns that
  error. The timeout is told apart from the errors of the operation itself: no attempt of
  any of the four closures gives \<open>wait.ErrWaitTimeout\<close>.
\<close>

theorem retried_operations_errors:
  "(R1 (readBackoff vars) (ListVolumes_condition c opt) ([], tr)
        = ((done, err), (volumes, tr')) \<longrightarrow>
      (err = None \<and> \<not> done \<longrightarrow>
         ListVolumes R1 vars c opt tr = ((volumes, Some ErrWaitTimeout), tr')) \<and>
      (err \<noteq> None \<longrightarrow> ListVolumes R1 vars c opt tr = ((volumes, err), tr'))) \<and>
   (R2 (writeBackoff vars) (CreateVolume_condition c opt) (None, tr)
        = ((done, err), (volume, tr')) \<longrightarrow>
      (err = None \<and> \<not> done \<longrightarrow>
         CreateVolume R2 vars c opt tr = ((volume, Some ErrWaitTimeout), tr')) \<and>
      (err \<noteq> None \<longrightarrow> CreateVolume R2 vars c opt tr = ((volume, err), tr'))) \<and>
   (R3 (writeBackoff vars) (AttachVolume_condition c serverID opts) (None, tr)
        = ((done, err), (volume, tr')) \<longrightarrow>
      (err = None \<and> \<not> done \<longrightarrow>
         AttachVolume R3 vars c serverID opts tr = ((volume, Some ErrWaitTimeout), tr')) \<and>
      (err \<noteq> None \<longrightarrow> AttachVolume R3 vars c serverID opts tr = ((volume, err), tr'))) \<and>
   (tags \<noteq> [] \<and> id' \<noteq> [] \<and>
    R4 (writeBackoff vars) (SetVolumeTags_condition c id' tags) tr = ((done, err), tr') \<longrightarrow>
      (err = None \<and> \<not> done \<longrightarrow>
         SetVolumeTags R4 vars c id' tags tr = (Some ErrWaitTimeout, tr')) \<and>
      (err \<noteq> None \<longrightarrow> SetVolumeTags R4 vars c id' tags tr = (err, tr'))) \<and>
   snd (fst (ListVolumes_condition c opt s1)) \<noteq> Some ErrWaitTimeout \<and>
   snd (fst (CreateVolume_condition c opt s2)) \<noteq> Some ErrWaitTimeout \<and>
   snd (fst (AttachVolume_condition c serverID opts s3)) \<noteq> Some ErrWaitTimeout \<and>
   snd (fst (SetVolumeTags_condition c id' tags s4)) \<noteq> Some ErrWaitTimeout"
proof (intro conjI impI)
  show "snd (fst (ListVolumes_condition c opt s1)) \<noteq> Some ErrWaitTimeout"
    "snd (fst (CreateVolume_condition c opt s2)) \<noteq> Some ErrWaitTimeout"
    "snd (fst (AttachVolume_condition c serverID opts s3)) \<noteq> Some ErrWaitTimeout"
    "snd (fst (SetVolumeTags_condition c id' tags s4)) \<noteq> Some ErrWaitTimeout"
    by (rule conditions_never_time_out)+
qed (auto simp: ListVolumes_error CreateVolume_error AttachVolume_error SetVolumeTags_error)

text \<open>
  The theorem at the initial policies and a provider that fails every request: under the
  executor that uses up its budget and keeps no error, each operation makes as many
  requests as its policy has steps and returns the timeout; under the executor that makes
  one attempt, each operation returns the error of that attempt.
\<close>

theorem retried_operations_errors_witness:
  "ListVolumes retry_dropping_errors package_init cloud_empty ''all'' []
     = (([], Some ErrWaitTimeout),
        [Call_cinder_List ''all'', Call_cinder_List ''all'', Call_cinder_List ''all'',
         Call_cinder_List ''all'']) \<and>
   CreateVolume retry_dropping_errors package_init cloud_empty ''10GB'' []
     = ((None, Some ErrWaitTimeout),
        [Call_cinder_Create ''10GB'', Call_cinder_Create ''10GB'', Call_cinder_Create ''10GB'',
         Call_cinder_Create ''10GB'', Call_cinder_Create ''10GB'']) \<and>
   AttachVolume retry_dropping_errors package_init cloud_empty ''server-1''
       \<lparr> VolumeID = ''vol-1'' \<rparr> []
     = ((None, Some ErrWaitTimeout),
        [Call_volumeattach_Create ''server-1'' \<lparr> VolumeID = ''vol-1'' \<rparr>,
         Call_volumeattach_Create ''server-1'' \<lparr> VolumeID = ''vol-1'' \<rparr>,
         Call_volumeattach_Create ''server-1'' \<lparr> VolumeID = ''vol-1'' \<rparr>,
         Call_volumeattach_Create ''server-1'' \<lparr> VolumeID = ''vol-1'' \<rparr>,
         Call_volumeattach_Create ''server-1'' \<lparr> VolumeID = ''vol-1'' \<rparr>]) \<and>
   SetVolumeTags retry_dropping_errors package_init cloud_empty ''vol-1''
       [(''KubernetesCluster'', ''k8s.local'')] []
     = (Some ErrWaitTimeout,
        [Call_cinder_Update ''vol-1'' [(''KubernetesCluster'', ''k8s.local'')],
         Call_cinder_Update ''vol-1'' [(''KubernetesCluster'', ''k8s.local'')],
         Call_cinder_Update ''vol-1'' [(''KubernetesCluster'', ''k8s.local'')],
         Call_cinder_Update ''vol-1'' [(''KubernetesCluster'', ''k8s.local'')],
         Call_cinder_Update ''vol-1'' [(''KubernetesCluster'', ''k8s.local'')]]) \<and>
   ListVolumes retry_single_attempt package_init cloud_empty ''all'' []
     = (([], Some (Errorf ''error listing volumes %v: %v''
                     [Str ''all'', Err (ProviderError ''Resource not found'')])),
        [Call_cinder_List ''all'']) \<and>
   CreateVolume retry_single_attempt package_init cloud_empty ''10GB'' []
     = ((None, Some (Errorf ''error creating volume %v: %v''
                       [Str ''10GB'', Err (ProviderError ''Resource not found'')])),
        [Call_cinder_Create ''10GB'']) \<and>
   AttachVolume retry_single_attempt package_init cloud_empty ''server-1''
       \<lparr> VolumeID = ''vol-1'' \<rparr> []
     = ((None, Some (Errorf ''error attaching volume %s to server %s: %v''
                       [Str ''vol-1'', Str ''server-1'', Err (ProviderError ''Resource not found'')])),
        [Call_volumeattach_Create ''server-1'' \<lparr> VolumeID = ''vol-1'' \<rparr>]) \<and>
   SetVolumeTags retry_single_attempt package_init cloud_empty ''vol-1''
       [(''KubernetesCluster'', ''k8s.local'')] []
     = (Some (Errorf ''error setting tags to cinder volume %q: %v''
                [Str ''vol-1'', Err (ProviderError ''Resource not found'')]),
        [Call_cinder_Update ''vol-1'' [(''KubernetesCluster'', ''k8s.local'')]])"
proof -
  let ?tags = "[(''KubernetesCluster'', ''k8s.local'')]"
  let ?opts = "\<lparr> VolumeID = ''vol-1'' \<rparr>"
  let ?l = "Call_cinder_List ''all''"
  let ?c = "Call_cinder_Create ''10GB''"
  let ?a = "Call_volumeattach_Create ''server-1'' ?opts"
  let ?u = "Call_cinder_Update ''vol-1'' ?tags"
  have t1: "ListVolumes retry_dropping_errors package_init cloud_empty ''all'' []
              = (([], Some ErrWaitTimeout), [?l, ?l, ?l, ?l])"
    using retried_operations_errors
      [where ?R1.0 = retry_dropping_errors and vars = package_init and c = cloud_empty
         and opt = "''all''" and tr = "[]" and tr' = "[?l, ?l, ?l, ?l]"
         and ?done = False and err = None and volumes = "[]"]
    by (simp add: retry_dropping_errors_def package_init_def ListVolumes_condition_def
          cloud_empty_def eval_nat_numeral)
  have t2: "CreateVolume retry_dropping_errors package_init cloud_empty ''10GB'' []
              = ((None, Some ErrWaitTimeout), [?c, ?c, ?c, ?c, ?c])"
    using retried_operations_errors
      [where ?R2.0 = retry_dropping_errors and vars = package_init and c = cloud_empty
         and opt = "''10GB''" and tr = "[]" and tr' = "[?c, ?c, ?c, ?c, ?c]"
         and ?done = False and err = None and volume = None]
    by (simp add: retry_dropping_errors_def package_init_def CreateVolume_condition_def
          cloud_empty_def eval_nat_numeral)
  have t3: "AttachVolume retry_dropping_errors package_init cloud_empty ''server-1'' ?opts []
              = ((None, Some ErrWaitTimeout), [?a, ?a, ?a, ?a, ?a])"
    using retried_operations_errors
      [where ?R3.0 = retry_dropping_errors and vars = package_init and c = cloud_empty
         and serverID = "''server-1''" and opts = ?opts and tr = "[]"
         and tr' = "[?a, ?a, ?a, ?a, ?a]" and ?done = False and err = None and volume = None]
    by (simp add: retry_dropping_errors_def package_init_def AttachVolume_condition_def
          cloud_empty_def eval_nat_numeral)
  have t4: "SetVolumeTags retry_dropping_errors package_init cloud_empty ''vol-1'' ?tags []
              = (Some ErrWaitTimeout, [?u, ?u, ?u, ?u, ?u])"
    using retried_operations_errors
      [where ?R4.0 = retry_dropping_errors and vars = package_init and c = cloud_empty
         and id' = "''vol-1''" and tags = ?tags and tr = "[]"
         and tr' = "[?u, ?u, ?u, ?u, ?u]" and ?done = False and err = None]
    by (simp add: retry_dropping_errors_def package_init_def SetVolumeTags_condition_def
          cloud_empty_def eval_nat_numeral)
  have e1: "ListVolumes retry_single_attempt package_init cloud_empty ''all'' []
     = (([], Some (Errorf ''error listing volumes %v: %v''
                     [Str ''all'', Err (ProviderError ''Resource not found'')])), [?l])"
    using retried_operations_errors
      [where ?R1.0 = retry_single_attempt and vars = package_init and c = cloud_empty
         and opt = "''all''" and tr = "[]" and tr' = "[?l]" and ?done = False
         and volumes = "[]"
         and err = "Some (Errorf ''error listing volumes %v: %v''
                     [Str ''all'', Err (ProviderError ''Resource not found'')])"]
    by (simp add: retry_single_attempt_def ListVolumes_condition_def cloud_empty_def)
  have e2: "CreateVolume retry_single_attempt package_init cloud_empty ''10GB'' []
     = ((None, Some (Errorf ''error creating volume %v: %v''
                       [Str ''10GB'', Err (ProviderError ''Resource not found'')])), [?c])"
    using retried_operations_errors
      [where ?R2.0 = retry_single_attempt and vars = package_init and c = cloud_empty
         and opt = "''10GB''" and tr = "[]" and tr' = "[?c]" and ?done = False
         and volume = None
         and err = "Some (Errorf ''error creating volume %v: %v''
                       [Str ''10GB'', Err (ProviderError ''Resource not found'')])"]
    by (simp add: retry_single_attempt_def CreateVolume_condition_def cloud_empty_def)
  have e3: "AttachVolume retry_single_attempt package_init cloud_empty ''server-1'' ?opts []
     = ((None, Some (Errorf ''error attaching volume %s to server %s: %v''
                       [Str ''vol-1'', Str ''server-1'', Err (ProviderError ''Resource not found'')])),
        [?a])"
    using retried_operations_errors
      [where ?R3.0 = retry_single_attempt and vars = package_init and c = cloud_empty
         and serverID = "''server-1''" and opts = ?opts and tr = "[]" and tr' = "[?a]"
         and ?done = False and volume = None
         and err = "Some (Errorf ''error attaching volume %s to server %s: %v''
                       [Str ''vol-1'', Str ''server-1'', Err (ProviderError ''Resource not found'')])"]
    by (simp add: retry_single_attempt_def AttachVolume_condition_def cloud_empty_def)
  have e4: "SetVolumeTags retry_single_attempt package_init cloud_empty ''vol-1'' ?tags []
     = (Some (Errorf ''error setting tags to cinder volume %q: %v''
                [Str ''vol-1'', Err (ProviderError ''Resource not found'')]), [?u])"
    using retried_operations_errors
      [where ?R4.0 = retry_single_attempt and vars = package_init and c = cloud_empty
         and id' = "''vol-1''" and tags = ?tags and tr = "[]" and tr' = "[?u]"
         and ?done = False
         and err = "Some (Errorf ''error setting tags to cinder volume %q: %v''
                [Str ''vol-1'', Err (ProviderError ''Resource not found'')])"]
    by (simp add: retry_single_attempt_def SetVolumeTags_condition_def cloud_empty_def)
  from t1 t2 t3 t4 e1 e2 e3 e4 show ?thesis by blast
qed

section \<open>The guards of SetVolumeTags\<close>

text \<open>
  C9. With an empty map of tags \<open>SetVolumeTags\<close> returns nil at once, whatever the
  identifier, the empty string included; with tags and the empty string for identifier it
  returns an error. In both cases the trace is as it was: no request reaches the provider,
  and the executor is not run.
\<close>

theorem SetVolumeTags_guards:
  "(tags = [] \<longrightarrow> SetVolumeTags R vars c id' tags tr = (None, tr)) \<and>
   (tags \<noteq> [] \<and> id' = [] \<longrightarrow>
      SetVolumeTags R vars c id' tags tr
        = (Some (Errorf ''error setting tags to unknown volume'' []), tr))"
  by (simp add: SetVolumeTags_def)

text \<open>
  The theorem at no tags with and without an identifier, and at one tag without identifier.
\<close>

theorem SetVolumeTags_guards_witness:
  "SetVolumeTags retry_single_attempt package_init cloud_up '''' [] [] = (None, []) \<and>
   SetVolumeTags retry_single_attempt package_init cloud_up ''vol-1'' [] [] = (None, []) \<and>
   SetVolumeTags retry_single_attempt package_init cloud_up ''''
       [(''KubernetesCluster'', ''k8s.local'')] []
     = (Some (Errorf ''error setting tags to unknown volume'' []), [])"
  using SetVolumeTags_guards [of "[]" retry_single_attempt package_init cloud_up "''''" "[]"]
    SetVolumeTags_guards [of "[]" retry_single_attempt package_init cloud_up "''vol-1''" "[]"]
    SetVolumeTags_guards [of "[(''KubernetesCluster'', ''k8s.local'')]" retry_single_attempt
      package_init cloud_up "''''" "[]"]
  by simp

section \<open>Looking up a server group by name\<close>

text \<open>
  The loop gives the first server group of the name.
\<close>

lemma GetIDForServerGroupName_loop_find:
  "GetIDForServerGroupName_loop (Some n) serverGroups =
     (case List.find (\<lambda>g. sg_Name g = n) serverGroups of
        Some g \<Rightarrow> Return (Some (sg_ID g), None)
      | None \<Rightarrow> Return (None, Some (Errorf ''ID not found for Server Group Name %s.'' [Str n])))"
  by (induction serverGroups) (simp_all add: fi_String_def)

text \<open>
  C10. \<open>GetIDForServerGroupName\<close> lists the server groups once and drops the error of the
  listing: its result is a function of the listed groups alone, the identifier of the first
  group of the name, or the error "ID not found" when no listed group has the name. A
  listing that fails and gives no group of the name is so reported as a listing that
  succeeds and has no such group.
\<close>

theorem GetIDForServerGroupName_ignores_error:
  "Cloud_ListServerGroups cloud tr = (serverGroups, err) \<Longrightarrow>
     GetIDForServerGroupName cloud (Some n) tr =
       (case List.find (\<lambda>g. sg_Name g = n) serverGroups of
          Some g \<Rightarrow> Return (Some (sg_ID g), None)
        | None \<Rightarrow> Return (None, Some (Errorf ''ID not found for Server Group Name %s.'' [Str n])),
        tr @ [Call_ListServerGroups])"
  by (simp add: GetIDForServerGroupName_def GetIDForServerGroupName_loop_find)

text \<open>
  The theorem at a listing that fails, at a listing that is empty and at one that has the
  group.
\<close>

theorem GetIDForServerGroupName_ignores_error_witness:
  "GetIDForServerGroupName
     (cloud_empty\<lparr>Cloud_ListServerGroups := \<lambda>tr. ([], Some (ProviderError ''503 Service Unavailable''))\<rparr>)
     (Some ''masters'') []
   = (Return (None, Some (Errorf ''ID not found for Server Group Name %s.'' [Str ''masters''])),
      [Call_ListServerGroups]) \<and>
   GetIDForServerGroupName cloud_empty (Some ''masters'') []
   = (Return (None, Some (Errorf ''ID not found for Server Group Name %s.'' [Str ''masters''])),
      [Call_ListServerGroups]) \<and>
   GetIDForServerGroupName cloud_up (Some ''nodes'') []
   = (Return (Some ''sg-2'', None), [Call_ListServerGroups])"
  using GetIDForServerGroupName_ignores_error
     [of "cloud_empty\<lparr>Cloud_ListServerGroups := \<lambda>tr. ([], Some (ProviderError ''503 Service Unavailable''))\<rparr>"
         "[]" "[]" "Some (ProviderError ''503 Service Unavailable'')" "''masters''"]
    GetIDForServerGroupName_ignores_error [of cloud_empty "[]" "[]" None "''masters''"]
    GetIDForServerGroupName_ignores_error [of cloud_up "[]"
       "[\<lparr> sg_ID = ''sg-1'', sg_Name = ''masters'' \<rparr>, \<lparr> sg_ID = ''sg-2'', sg_Name = ''nodes'' \<rparr>]"
       None "''nodes''"]
  by (simp add: cloud_empty_def cloud_up_def)

end
